theory Spec2Isabelle
  imports Main
begin

section \<open>JavaScript values and \<^verbatim>\<open>JSON.stringify\<close>\<close>

text \<open>
  The facades of \<^verbatim>\<open>src/client/contexts/PrivilegedSettingsContext.ts\<close> handle setting
  values and editors of type \<^verbatim>\<open>unknown\<close> and compare them with
  \<^verbatim>\<open>JSON.stringify(a) !== JSON.stringify(b)\<close>. A JavaScript value is modelled by the
  tree reachable from it: an array by the list of its elements, an object by the list of
  its own enumerable properties in enumeration order. Two references to separately built
  objects of the same shape are therefore the same tree. The numbers are the integers
  (\<open>JNum n\<close> is the number \<open>n\<close>, where it is one of JavaScript's), \<^verbatim>\<open>NaN\<close> and the
  two infinities; the fractions, negative zero, functions and the objects with a
  \<^verbatim>\<open>toJSON\<close> method (dates) are left out.
\<close>

datatype jsval =
    JUndefined
  | JNull
  | JBool bool
  | JNum int
  | JNaN
  | JInfinity
  | JNegInfinity
  | JStr string
  | JArr "jsval list"
  | JObj "(string \<times> jsval) list"

text \<open>
  The text that \<^verbatim>\<open>JSON.stringify\<close> returns is kept as its syntax tree. The printer
  emits no white space, a property name and a string in quotes, a number in its shortest
  decimal form, so two results are the same text exactly when they are the same tree
  (with the properties in the same order).
\<close>

datatype json =
    TNull
  | TBool bool
  | TNum int
  | TStr string
  | TArr "json list"
  | TObj "(string \<times> json) list"

text \<open>
  \<^verbatim>\<open>JSON.stringify(v)\<close> (ECMAScript, SerializeJSONProperty): \<^verbatim>\<open>undefined\<close> has no
  serialisation (the call returns \<^verbatim>\<open>undefined\<close>, here \<open>None\<close>); inside an array it is
  printed as \<^verbatim>\<open>null\<close>; a property whose value is \<^verbatim>\<open>undefined\<close> is dropped. A number
  that is not finite is printed as \<^verbatim>\<open>null\<close>. The serialisation therefore does not
  determine the value.
\<close>

fun JSON_stringify :: "jsval \<Rightarrow> json option"
  and stringify_elems :: "jsval list \<Rightarrow> json list"
  and stringify_props :: "(string \<times> jsval) list \<Rightarrow> (string \<times> json) list"
where
  "JSON_stringify JUndefined = None"
| "JSON_stringify JNull = Some TNull"
| "JSON_stringify (JBool b) = Some (TBool b)"
| "JSON_stringify (JNum n) = Some (TNum n)"
| "JSON_stringify JNaN = Some TNull"
| "JSON_stringify JInfinity = Some TNull"
| "JSON_stringify JNegInfinity = Some TNull"
| "JSON_stringify (JStr s) = Some (TStr s)"
| "JSON_stringify (JArr xs) = Some (TArr (stringify_elems xs))"
| "JSON_stringify (JObj ps) = Some (TObj (stringify_props ps))"
| "stringify_elems [] = []"
| "stringify_elems (x # xs) =
     (case JSON_stringify x of None \<Rightarrow> TNull | Some t \<Rightarrow> t) # stringify_elems xs"
| "stringify_props [] = []"
| "stringify_props ((k, v) # ps) =
     (case JSON_stringify v of
        None \<Rightarrow> stringify_props ps
      | Some t \<Rightarrow> (k, t) # stringify_props ps)"

text \<open>JavaScript truthiness, as \<^verbatim>\<open>||\<close> tests it.\<close>

fun js_truthy :: "jsval \<Rightarrow> bool" where
  "js_truthy JUndefined = False"
| "js_truthy JNull = False"
| "js_truthy (JBool b) = b"
| "js_truthy (JNum n) = (n \<noteq> 0)"
| "js_truthy JNaN = False"
| "js_truthy JInfinity = True"
| "js_truthy JNegInfinity = True"
| "js_truthy (JStr s) = (s \<noteq> [])"
| "js_truthy (JArr xs) = True"
| "js_truthy (JObj ps) = True"

text \<open>\<^verbatim>\<open>a || b\<close>: the left operand when it is truthy, else the right one.\<close>

definition js_or :: "jsval \<Rightarrow> jsval \<Rightarrow> jsval" where
  "js_or a b = (if js_truthy a then a else b)"

text \<open>
  Deep structural equality, as the specification words it (\<^verbatim>\<open>deepEqual\<close>): primitives
  are equal when they are the same primitive, arrays when they have the same length and
  deep-equal elements at each index, objects when they have the same number of properties
  and every property of the one is a property of the other with a deep-equal value. The
  order in which the properties were added does not matter: an object is a map from
  property names to values, and two objects built with the same properties in another
  order are "differently-constructed but structurally identical". This is the relation
  that the deep-equality functions of JavaScript compute (\<^verbatim>\<open>isEqual\<close> of lodash,
  \<^verbatim>\<open>assert.deepStrictEqual\<close> of Node). The property lists of an object have distinct
  names.
\<close>

fun deep_equal :: "jsval \<Rightarrow> jsval \<Rightarrow> bool"
  and deep_equal_elems :: "jsval list \<Rightarrow> jsval list \<Rightarrow> bool"
  and deep_equal_props :: "(string \<times> jsval) list \<Rightarrow> (string \<times> jsval) list \<Rightarrow> bool"
where
  "deep_equal JUndefined w = (w = JUndefined)"
| "deep_equal JNull w = (w = JNull)"
| "deep_equal (JBool b) w = (w = JBool b)"
| "deep_equal (JNum n) w = (w = JNum n)"
| "deep_equal JNaN w = (w = JNaN)"
| "deep_equal JInfinity w = (w = JInfinity)"
| "deep_equal JNegInfinity w = (w = JNegInfinity)"
| "deep_equal (JStr s) w = (w = JStr s)"
| "deep_equal (JArr xs) w = (case w of JArr ys \<Rightarrow> deep_equal_elems xs ys | _ \<Rightarrow> False)"
| "deep_equal (JObj ps) w =
     (case w of JObj qs \<Rightarrow> length ps = length qs \<and> deep_equal_props ps qs | _ \<Rightarrow> False)"
| "deep_equal_elems [] ys = (ys = [])"
| "deep_equal_elems (x # xs) ys =
     (case ys of [] \<Rightarrow> False | y # ys' \<Rightarrow> deep_equal x y \<and> deep_equal_elems xs ys')"
| "deep_equal_props [] qs = True"
| "deep_equal_props ((k, v) # ps) qs =
     ((case map_of qs k of None \<Rightarrow> False | Some w \<Rightarrow> deep_equal v w)
      \<and> deep_equal_props ps qs)"

section \<open>The data model\<close>

text \<open>
  \<^verbatim>\<open>ISetting\<close> is declared in \<^verbatim>\<open>definition/ISetting\<close>; the facades read its fields
  \<^verbatim>\<open>_id\<close>, \<^verbatim>\<open>value\<close>, \<^verbatim>\<open>editor\<close>, \<^verbatim>\<open>packageValue\<close> and \<^verbatim>\<open>packageEditor\<close>.
  \<open>s_id\<close>, \<open>s_value\<close> and \<open>s_editor\<close> stand for the first three.
\<close>

record ISetting =
  s_id :: string
  s_value :: jsval
  s_editor :: jsval
  packageValue :: jsval
  packageEditor :: jsval

text \<open>\<^verbatim>\<open>interface IEditableSetting extends ISetting { disabled; changed }\<close>\<close>

record IEditableSetting = ISetting +
  disabled :: bool
  changed :: bool

text \<open>
  \<^verbatim>\<open>type GroupDescriptor = IEditableSetting & { editableSettings; sections; changed }\<close>
\<close>

record GroupDescriptor = IEditableSetting +
  editableSettings :: "IEditableSetting list"
  sections :: "string list"

text \<open>\<^verbatim>\<open>type SectionDescriptor = { name; editableSettings; settings; changed; canReset }\<close>\<close>

record SectionDescriptor =
  sec_name :: string
  sec_editableSettings :: "IEditableSetting list"
  sec_settings :: "string list"
  sec_changed :: bool
  sec_canReset :: bool

text \<open>
  An element of the batch handed to \<^verbatim>\<open>dispatch\<close>: the object literal
  \<^verbatim>\<open>{ _id, value, editor }\<close> of \<^verbatim>\<open>save\<close>.
\<close>

record change =
  c_id :: string
  c_value :: jsval
  c_editor :: jsval

text \<open>
  An element of the array handed to \<^verbatim>\<open>dispatchToEditableSettings\<close>. Each property may be
  missing from the object literal (\<open>None\<close>): \<^verbatim>\<open>cancel\<close> emits \<^verbatim>\<open>{}\<close>, and \<^verbatim>\<open>update\<close>
  spreads \<^verbatim>\<open>value\<close> and \<^verbatim>\<open>editor\<close> in only when they are not \<^verbatim>\<open>undefined\<close>. A property
  that is present may still hold \<^verbatim>\<open>undefined\<close> (\<open>Some JUndefined\<close>).
\<close>

record patch =
  p_id :: "string option"
  p_value :: "jsval option"
  p_editor :: "jsval option"
  p_changed :: "bool option"

text \<open>The value of \<^verbatim>\<open>useUser()\<close>; only \<^verbatim>\<open>user?.language\<close> is read.\<close>

record User =
  language :: jsval

text \<open>
  The collaborators a facade reaches through \<^verbatim>\<open>useContext(PrivilegedSettingsContext)\<close> and
  the sibling hooks. \<^verbatim>\<open>querySetting\<close> stands for \<^verbatim>\<open>querySetting(_id).getCurrentValue()\<close>.
  A promise that rejects is \<open>Inl\<close> of the thrown value, one that resolves is \<open>Inr ()\<close>.
  \<^verbatim>\<open>dispatchToastMessage\<close> and the translation function \<^verbatim>\<open>t\<close> are taken not to throw.
\<close>

record env =
  querySetting :: "string \<Rightarrow> ISetting option"
  dispatch :: "change list \<Rightarrow> jsval + unit"
  getSettingsGroup :: "string \<Rightarrow> GroupDescriptor option"
  getSettingsSection :: "string \<Rightarrow> string \<Rightarrow> SectionDescriptor option"
  loadLanguage :: "jsval \<Rightarrow> jsval + unit"
  user :: "User option"

text \<open>
  The calls a facade makes on its collaborators, in the order it makes them.
  \<open>Translated k l\<close> is the text \<^verbatim>\<open>t(k)\<close>, or \<^verbatim>\<open>t(k, { lng })\<close> when \<open>l = Some lng\<close>;
  \<open>Thrown e\<close> is the caught value passed on as the message.
\<close>

datatype toast_type = success | error

datatype message = Translated string "jsval option" | Thrown jsval

datatype event =
    Dispatch "change list"
  | LoadLanguage jsval
  | ToastMessage toast_type message
  | DispatchToEditableSettings "patch list"

section \<open>The action facades\<close>

subsection \<open>\<^verbatim>\<open>usePrivilegedSettingsGroupActions\<close>: save and cancel\<close>

text \<open>\<^verbatim>\<open>getSettingsGroup(groupId)?.editableSettings ?? []\<close>\<close>

definition group_members :: "env \<Rightarrow> string \<Rightarrow> IEditableSetting list" where
  "group_members ctx groupId =
     (case getSettingsGroup ctx groupId of None \<Rightarrow> [] | Some g \<Rightarrow> editableSettings g)"

text \<open>
  \<^verbatim>\<open>.filter(({ changed }) => changed).map(({ _id, value, editor }) => ({ _id, value, editor }))\<close>
\<close>

definition save_changes :: "env \<Rightarrow> string \<Rightarrow> change list" where
  "save_changes ctx groupId =
     map (\<lambda>s. \<lparr>c_id = s_id s, c_value = s_value s, c_editor = s_editor s\<rparr>)
       (filter changed (group_members ctx groupId))"

text \<open>\<^verbatim>\<open>changes.filter(({ _id }) => _id === 'Language').shift()?.value\<close>\<close>

definition first_language_value :: "change list \<Rightarrow> jsval" where
  "first_language_value changes =
     (case filter (\<lambda>c. c_id c = ''Language'') changes of
        [] \<Rightarrow> JUndefined
      | c # _ \<Rightarrow> c_value c)"

text \<open>\<^verbatim>\<open>user?.language\<close>\<close>

definition user_language :: "env \<Rightarrow> jsval" where
  "user_language ctx = (case user ctx of None \<Rightarrow> JUndefined | Some u \<Rightarrow> language u)"

text \<open>
  \<^verbatim>\<open>save\<close> (lines 128 to 154). The \<^verbatim>\<open>try\<close> block covers both awaited calls, so a
  rejection of \<^verbatim>\<open>dispatch\<close> or of \<^verbatim>\<open>loadLanguage\<close> ends in the error toast.
\<close>

definition save :: "env \<Rightarrow> string \<Rightarrow> event list" where
  "save ctx groupId =
     (let changes = save_changes ctx groupId in
      if length changes = 0 then []
      else
        (case dispatch ctx changes of
           Inl err \<Rightarrow> [Dispatch changes, ToastMessage error (Thrown err)]
         | Inr _ \<Rightarrow>
             if list_ex (\<lambda>c. c_id c = ''Language'') changes then
               (let lng = js_or (js_or (user_language ctx) (first_language_value changes))
                            (JStr ''en'')
                in case loadLanguage ctx lng of
                     Inl err \<Rightarrow>
                       [Dispatch changes, LoadLanguage lng, ToastMessage error (Thrown err)]
                   | Inr _ \<Rightarrow>
                       [Dispatch changes, LoadLanguage lng,
                        ToastMessage success (Translated ''Settings_updated'' (Some lng))])
             else
               [Dispatch changes,
                ToastMessage success (Translated ''Settings_updated'' None)]))"

text \<open>The callback mapped over the changed members by \<^verbatim>\<open>cancel\<close> (lines 160 to 172).\<close>

definition cancel_patch :: "env \<Rightarrow> IEditableSetting \<Rightarrow> patch" where
  "cancel_patch ctx editableSetting =
     (case querySetting ctx (s_id editableSetting) of
        None \<Rightarrow> \<lparr>p_id = None, p_value = None, p_editor = None, p_changed = None\<rparr>
      | Some setting \<Rightarrow>
          \<lparr>p_id = Some (s_id setting), p_value = Some (s_value setting),
           p_editor = Some (s_editor setting), p_changed = Some False\<rparr>)"

text \<open>\<^verbatim>\<open>cancel\<close> (lines 156 to 174): one call of \<^verbatim>\<open>dispatchToEditableSettings\<close>.\<close>

definition cancel :: "env \<Rightarrow> string \<Rightarrow> event list" where
  "cancel ctx groupId =
     [DispatchToEditableSettings
        (map (cancel_patch ctx) (filter changed (group_members ctx groupId)))]"

subsection \<open>\<^verbatim>\<open>usePrivilegedSettingsSectionActions\<close>: the section-level reset\<close>

text \<open>The callback mapped over the enabled members (lines 205 to 212).\<close>

definition section_reset_patch :: "IEditableSetting \<Rightarrow> patch" where
  "section_reset_patch s =
     \<lparr>p_id = Some (s_id s),
      p_value = Some (packageValue s),
      p_editor = Some (packageEditor s),
      p_changed = Some (JSON_stringify (s_value s) \<noteq> JSON_stringify (packageValue s)
                        \<or> JSON_stringify (s_editor s) \<noteq> JSON_stringify (packageEditor s))\<rparr>"

definition section_reset :: "env \<Rightarrow> string \<Rightarrow> string \<Rightarrow> event list" where
  "section_reset ctx groupId sectionName =
     (case getSettingsSection ctx groupId sectionName of
        None \<Rightarrow> []
      | Some sectionDescriptor \<Rightarrow>
          [DispatchToEditableSettings
             (map section_reset_patch
                (filter (\<lambda>s. \<not> disabled s) (sec_editableSettings sectionDescriptor)))])"

subsection \<open>\<^verbatim>\<open>usePrivilegedSettingActions\<close>: update and the setting-level reset\<close>

text \<open>
  The bodies of the two debounced callbacks, as they run when the timer of
  \<^verbatim>\<open>useDebouncedCallback\<close> fires. \<open>update\<close> receives the destructured
  \<^verbatim>\<open>{ value, editor }\<close>: a property the caller left out arrives as \<^verbatim>\<open>undefined\<close>.
\<close>

definition update_patch :: "ISetting \<Rightarrow> string \<Rightarrow> jsval \<Rightarrow> jsval \<Rightarrow> patch" where
  "update_patch persistedSetting i v e =
     \<lparr>p_id = Some i,
      p_value = (if v \<noteq> JUndefined then Some v else None),
      p_editor = (if e \<noteq> JUndefined then Some e else None),
      p_changed = Some (JSON_stringify (s_value persistedSetting) \<noteq> JSON_stringify v
                        \<or> JSON_stringify (s_editor persistedSetting) \<noteq> JSON_stringify e)\<rparr>"

definition update :: "env \<Rightarrow> string \<Rightarrow> jsval \<Rightarrow> jsval \<Rightarrow> event list" where
  "update ctx i v e =
     (case querySetting ctx i of
        None \<Rightarrow> []
      | Some persistedSetting \<Rightarrow>
          [DispatchToEditableSettings [update_patch persistedSetting i v e]])"

definition reset_patch :: "ISetting \<Rightarrow> patch" where
  "reset_patch persistedSetting =
     \<lparr>p_id = Some (s_id persistedSetting),
      p_value = Some (packageValue persistedSetting),
      p_editor = Some (packageEditor persistedSetting),
      p_changed = Some (JSON_stringify (packageValue persistedSetting)
                          \<noteq> JSON_stringify (s_value persistedSetting)
                        \<or> JSON_stringify (packageEditor persistedSetting)
                          \<noteq> JSON_stringify (s_editor persistedSetting))\<rparr>"

definition reset :: "env \<Rightarrow> string \<Rightarrow> event list" where
  "reset ctx i =
     (case querySetting ctx i of
        None \<Rightarrow> []
      | Some persistedSetting \<Rightarrow> [DispatchToEditableSettings [reset_patch persistedSetting]])"

section \<open>The editable overlay\<close>

text \<open>
  Modelled from the spec: \<^verbatim>\<open>dispatchToEditableSettings\<close> is supplied by the context
  provider, which is not among the sources. Section 4.1 of the specification gives its
  contract (\<^verbatim>\<open>get\<close> and \<^verbatim>\<open>applyPatches\<close>): an overlay entry is read if there is one and
  else synthesised from the persisted record with \<^verbatim>\<open>changed = false\<close>; a patch is merged
  into the entry of its id, the properties it carries overwriting the entry's; \<^verbatim>\<open>changed\<close>
  is taken from the patch when supplied and else recomputed by deep equality against the
  persisted record; a patch with no id, or for an id with no persisted record, is dropped.
  The \<^verbatim>\<open>disabled\<close> flag of a synthesised entry comes from the external relevance
  predicate \<open>rel\<close>.
\<close>

type_synonym overlay = "string \<Rightarrow> IEditableSetting option"

definition get_editable ::
  "(string \<Rightarrow> ISetting option) \<Rightarrow> (string \<Rightarrow> bool) \<Rightarrow> overlay \<Rightarrow> string \<Rightarrow> IEditableSetting option"
where
  "get_editable persisted rel ov i =
     (case ov i of
        Some s \<Rightarrow> Some s
      | None \<Rightarrow>
          (case persisted i of
             None \<Rightarrow> None
           | Some p \<Rightarrow>
               Some \<lparr>s_id = s_id p, s_value = s_value p, s_editor = s_editor p,
                     packageValue = packageValue p, packageEditor = packageEditor p,
                     disabled = rel i, changed = False\<rparr>))"

definition apply_patch ::
  "(string \<Rightarrow> ISetting option) \<Rightarrow> (string \<Rightarrow> bool) \<Rightarrow> overlay \<Rightarrow> patch \<Rightarrow> overlay"
where
  "apply_patch persisted rel ov q =
     (case p_id q of
        None \<Rightarrow> ov
      | Some i \<Rightarrow>
          (case persisted i of
             None \<Rightarrow> ov
           | Some p \<Rightarrow>
               (case get_editable persisted rel ov i of
                  None \<Rightarrow> ov
                | Some s \<Rightarrow>
                    (let v = (case p_value q of None \<Rightarrow> s_value s | Some v' \<Rightarrow> v');
                         e = (case p_editor q of None \<Rightarrow> s_editor s | Some e' \<Rightarrow> e');
                         c = (case p_changed q of
                                None \<Rightarrow> \<not> deep_equal v (s_value p) \<or> \<not> deep_equal e (s_editor p)
                              | Some c' \<Rightarrow> c')
                     in ov(i \<mapsto> s\<lparr>s_value := v, s_editor := e, changed := c\<rparr>)))))"

definition dispatchToEditableSettings ::
  "(string \<Rightarrow> ISetting option) \<Rightarrow> (string \<Rightarrow> bool) \<Rightarrow> patch list \<Rightarrow> overlay \<Rightarrow> overlay"
where
  "dispatchToEditableSettings persisted rel patches ov =
     foldl (apply_patch persisted rel) ov patches"

text \<open>
  The effect of a facade's calls on the overlay: only \<^verbatim>\<open>dispatchToEditableSettings\<close>
  writes it. The persisted records are written by the external sync collaborator alone.
\<close>

fun run_event :: "env \<Rightarrow> (string \<Rightarrow> bool) \<Rightarrow> overlay \<Rightarrow> event \<Rightarrow> overlay" where
  "run_event ctx rel ov (DispatchToEditableSettings patches) =
     dispatchToEditableSettings (querySetting ctx) rel patches ov"
| "run_event ctx rel ov (Dispatch changes) = ov"
| "run_event ctx rel ov (LoadLanguage lng) = ov"
| "run_event ctx rel ov (ToastMessage ty m) = ov"

definition run_events :: "env \<Rightarrow> (string \<Rightarrow> bool) \<Rightarrow> event list \<Rightarrow> overlay \<Rightarrow> overlay" where
  "run_events ctx rel evs ov = foldl (run_event ctx rel) ov evs"

text \<open>Selectors on the calls of a trace.\<close>

fun is_Dispatch :: "event \<Rightarrow> bool" where
  "is_Dispatch (Dispatch changes) = True"
| "is_Dispatch _ = False"

fun is_LoadLanguage :: "event \<Rightarrow> bool" where
  "is_LoadLanguage (LoadLanguage lng) = True"
| "is_LoadLanguage _ = False"

fun is_Toast :: "event \<Rightarrow> bool" where
  "is_Toast (ToastMessage ty m) = True"
| "is_Toast _ = False"

fun is_success :: "event \<Rightarrow> bool" where
  "is_success (ToastMessage success m) = True"
| "is_success _ = False"

fun is_error :: "event \<Rightarrow> bool" where
  "is_error (ToastMessage error m) = True"
| "is_error _ = False"

section \<open>The dirty invariant\<close>

text \<open>
  The invariant as the specification writes it:
  \<^verbatim>\<open>changed == (deepEqual(value, persisted.value) is false) OR
  (deepEqual(editor, persisted.editor) is false)\<close>.
\<close>

definition dirty_invariant :: "ISetting \<Rightarrow> IEditableSetting \<Rightarrow> bool" where
  "dirty_invariant persistedSetting s =
     (changed s = (\<not> deep_equal (s_value s) (s_value persistedSetting)
                   \<or> \<not> deep_equal (s_editor s) (s_editor persistedSetting)))"

text \<open>The same invariant with the comparison the facades make, on the serialisations.\<close>

definition json_dirty_invariant :: "ISetting \<Rightarrow> IEditableSetting \<Rightarrow> bool" where
  "json_dirty_invariant persistedSetting s =
     (changed s = (JSON_stringify (s_value s) \<noteq> JSON_stringify (s_value persistedSetting)
                   \<or> JSON_stringify (s_editor s) \<noteq> JSON_stringify (s_editor persistedSetting)))"

section \<open>Example settings\<close>

text \<open>
  Collaborators for the examples: a promise that resolves, a store with no section, one
  with a single section, and a relevance predicate that disables nothing.
\<close>

definition resolves :: "'a \<Rightarrow> jsval + unit" where
  "resolves x = Inr ()"

definition no_section :: "string \<Rightarrow> string \<Rightarrow> SectionDescriptor option" where
  "no_section groupId sectionName = None"

definition section_at ::
  "string \<Rightarrow> string \<Rightarrow> SectionDescriptor \<Rightarrow> string \<Rightarrow> string \<Rightarrow> SectionDescriptor option"
where
  "section_at g n sd groupId sectionName =
     (if groupId = g \<and> sectionName = n then Some sd else None)"

definition never_disabled :: "string \<Rightarrow> bool" where
  "never_disabled i = False"

text \<open>A group \<^verbatim>\<open>General\<close> with three members: two edited, one not.\<close>

definition ex_site_name :: ISetting where
  "ex_site_name =
     \<lparr>s_id = ''Site_Name'', s_value = JStr ''Rocket.Chat'', s_editor = JUndefined,
      packageValue = JStr ''Rocket.Chat'', packageEditor = JUndefined\<rparr>"

definition ex_site_url :: ISetting where
  "ex_site_url =
     \<lparr>s_id = ''Site_Url'', s_value = JStr ''http://localhost:3000'', s_editor = JUndefined,
      packageValue = JStr ''http://localhost:3000'', packageEditor = JUndefined\<rparr>"

definition ex_site_name_edited :: IEditableSetting where
  "ex_site_name_edited =
     \<lparr>s_id = ''Site_Name'', s_value = JStr ''Acme Chat'', s_editor = JUndefined,
      packageValue = JStr ''Rocket.Chat'', packageEditor = JUndefined,
      disabled = False, changed = True\<rparr>"

definition ex_site_url_untouched :: IEditableSetting where
  "ex_site_url_untouched =
     \<lparr>s_id = ''Site_Url'', s_value = JStr ''http://localhost:3000'', s_editor = JUndefined,
      packageValue = JStr ''http://localhost:3000'', packageEditor = JUndefined,
      disabled = False, changed = False\<rparr>"

definition ex_language_edited :: IEditableSetting where
  "ex_language_edited =
     \<lparr>s_id = ''Language'', s_value = JStr ''de'', s_editor = JUndefined,
      packageValue = JStr [], packageEditor = JUndefined,
      disabled = False, changed = True\<rparr>"

definition ex_general :: GroupDescriptor where
  "ex_general =
     \<lparr>s_id = ''General'', s_value = JUndefined, s_editor = JUndefined,
      packageValue = JUndefined, packageEditor = JUndefined,
      disabled = False, changed = True,
      editableSettings = [ex_site_name_edited, ex_site_url_untouched, ex_language_edited],
      sections = [[]]\<rparr>"

text \<open>The persisted record of \<^verbatim>\<open>Language\<close> has gone from the store.\<close>

definition ex_env :: env where
  "ex_env =
     \<lparr>querySetting = [''Site_Name'' \<mapsto> ex_site_name, ''Site_Url'' \<mapsto> ex_site_url],
      dispatch = resolves,
      getSettingsGroup = [''General'' \<mapsto> ex_general],
      getSettingsSection = no_section,
      loadLanguage = resolves,
      user = None\<rparr>"

text \<open>A section with an enabled and a disabled member, both away from their defaults.\<close>

definition ex_site_url_locked :: IEditableSetting where
  "ex_site_url_locked =
     \<lparr>s_id = ''Site_Url'', s_value = JStr ''https://chat.example.org'', s_editor = JUndefined,
      packageValue = JStr ''http://localhost:3000'', packageEditor = JUndefined,
      disabled = True, changed = True\<rparr>"

definition ex_section :: SectionDescriptor where
  "ex_section =
     \<lparr>sec_name = [],
      sec_editableSettings = [ex_site_name_edited, ex_site_url_locked],
      sec_settings = [''Site_Name'', ''Site_Url''],
      sec_changed = True, sec_canReset = True\<rparr>"

text \<open>
  A size limit persisted as 5000 with the package default 2000, which the user has typed
  back to 2000 by hand.
\<close>

definition ex_limit :: ISetting where
  "ex_limit =
     \<lparr>s_id = ''Message_MaxAllowedSize'', s_value = JNum 5000, s_editor = JUndefined,
      packageValue = JNum 2000, packageEditor = JUndefined\<rparr>"

definition ex_limit_edited :: IEditableSetting where
  "ex_limit_edited =
     \<lparr>s_id = ''Message_MaxAllowedSize'', s_value = JNum 2000, s_editor = JUndefined,
      packageValue = JNum 2000, packageEditor = JUndefined,
      disabled = False, changed = True\<rparr>"

definition ex_limit_section :: SectionDescriptor where
  "ex_limit_section =
     \<lparr>sec_name = [], sec_editableSettings = [ex_limit_edited],
      sec_settings = [''Message_MaxAllowedSize''],
      sec_changed = True, sec_canReset = False\<rparr>"

definition ex_limit_env :: env where
  "ex_limit_env =
     \<lparr>querySetting = [''Message_MaxAllowedSize'' \<mapsto> ex_limit],
      dispatch = resolves,
      getSettingsGroup = Map.empty,
      getSettingsSection = section_at ''Message'' [] ex_limit_section,
      loadLanguage = resolves,
      user = None\<rparr>"

text \<open>A colour setting: its editor is \<^verbatim>\<open>'color'\<close>.\<close>

definition ex_colour :: ISetting where
  "ex_colour =
     \<lparr>s_id = ''theme-color-primary'', s_value = JStr ''#1d74f5'', s_editor = JStr ''color'',
      packageValue = JStr ''#1d74f5'', packageEditor = JStr ''color''\<rparr>"

definition ex_colour_env :: env where
  "ex_colour_env =
     \<lparr>querySetting = [''theme-color-primary'' \<mapsto> ex_colour],
      dispatch = resolves,
      getSettingsGroup = Map.empty,
      getSettingsSection = no_section,
      loadLanguage = resolves,
      user = None\<rparr>"

text \<open>
  A multi-select setting whose persisted value and package default list the same option,
  the two properties of the option written in a different order.
\<close>

definition ex_roles :: ISetting where
  "ex_roles =
     \<lparr>s_id = ''Accounts_Default_Roles'',
      s_value = JArr [JObj [(''key'', JStr ''user''), (''i18nLabel'', JStr ''User'')]],
      s_editor = JUndefined,
      packageValue = JArr [JObj [(''i18nLabel'', JStr ''User''), (''key'', JStr ''user'')]],
      packageEditor = JUndefined\<rparr>"

definition ex_roles_env :: env where
  "ex_roles_env =
     \<lparr>querySetting = [''Accounts_Default_Roles'' \<mapsto> ex_roles],
      dispatch = resolves,
      getSettingsGroup = Map.empty,
      getSettingsSection = no_section,
      loadLanguage = resolves,
      user = None\<rparr>"

section \<open>Facts about the serialisation\<close>

text \<open>
  Different values can have the same serialisation: \<^verbatim>\<open>NaN\<close> and \<^verbatim>\<open>null\<close>, an array
  holding \<^verbatim>\<open>undefined\<close> and one holding \<^verbatim>\<open>null\<close>, an object with a property that is
  \<^verbatim>\<open>undefined\<close> and one without it.
\<close>

lemma stringify_not_injective:
  "JSON_stringify JNaN = JSON_stringify JNull"
  "JSON_stringify (JArr [JUndefined]) = JSON_stringify (JArr [JNull])"
  "JSON_stringify (JObj [(k, JUndefined)]) = JSON_stringify (JObj [])"
  by simp_all

section \<open>Facts about the overlay\<close>

lemma apply_patch_other: "p_id q \<noteq> Some j \<Longrightarrow> apply_patch Q rel ov q j = ov j"
  by (auto simp: apply_patch_def Let_def split: option.splits)

lemma dispatchToEditableSettings_other:
  "Some j \<notin> set (map p_id ps) \<Longrightarrow> dispatchToEditableSettings Q rel ps ov j = ov j"
  unfolding dispatchToEditableSettings_def
  by (induction ps arbitrary: ov) (auto simp: apply_patch_other)

lemma apply_patch_no_id: "p_id q = None \<Longrightarrow> apply_patch Q rel ov q = ov"
  by (simp add: apply_patch_def)

lemma apply_patch_idem:
  "apply_patch Q rel (apply_patch Q rel ov q) q = apply_patch Q rel ov q"
  by (auto simp: apply_patch_def get_editable_def Let_def split: option.splits)

lemma run_single:
  "run_events ctx rel [DispatchToEditableSettings [q]] ov
     = apply_patch (querySetting ctx) rel ov q"
  by (simp add: run_events_def dispatchToEditableSettings_def)

lemma run_nil: "run_events ctx rel [] ov = ov"
  by (simp add: run_events_def)

text \<open>The persisted records are all that the overlay's writer reads of the context.\<close>

lemma run_event_persisted:
  "querySetting ctx' = querySetting ctx \<Longrightarrow> run_event ctx' rel ov ev = run_event ctx rel ov ev"
  by (cases ev) simp_all

lemma run_events_persisted:
  assumes "querySetting ctx' = querySetting ctx"
  shows "run_events ctx' rel evs ov = run_events ctx rel evs ov"
proof -
  have "run_event ctx' rel ov' ev = run_event ctx rel ov' ev" for ov' ev
    using assms by (rule run_event_persisted)
  then have "run_event ctx' rel = run_event ctx rel"
    by (simp add: fun_eq_iff)
  then show ?thesis by (simp only: run_events_def)
qed

lemma apply_patch_full:
  assumes "Q i = Some p" "p_id q = Some i" "p_value q = Some v" "p_editor q = Some e"
    "p_changed q = Some c"
  shows "\<exists>s'. apply_patch Q rel ov q i = Some s'
               \<and> s_value s' = v \<and> s_editor s' = e \<and> changed s' = c"
  using assms
  by (auto simp: apply_patch_def get_editable_def Let_def split: option.splits)

text \<open>
  When every patch of a batch that names the setting \<open>i\<close> is the same full patch, the
  overlay entry of \<open>i\<close> ends with that patch's fields.
\<close>

lemma dispatchToEditableSettings_at:
  assumes "Q i = Some p" "p_id q0 = Some i" "p_value q0 = Some v" "p_editor q0 = Some e"
    "p_changed q0 = Some c"
  shows "q0 \<in> set ps \<Longrightarrow> \<forall>q\<in>set ps. p_id q = Some i \<longrightarrow> q = q0
         \<Longrightarrow> \<exists>s'. dispatchToEditableSettings Q rel ps ov i = Some s'
                  \<and> s_value s' = v \<and> s_editor s' = e \<and> changed s' = c"
proof (induction ps rule: rev_induct)
  case Nil
  then show ?case by simp
next
  case (snoc q ps)
  have step: "dispatchToEditableSettings Q rel (ps @ [q]) ov
                = apply_patch Q rel (dispatchToEditableSettings Q rel ps ov) q"
    by (simp add: dispatchToEditableSettings_def)
  show ?case
  proof (cases "p_id q = Some i")
    case True
    with snoc.prems have "q = q0" by simp
    with step assms show ?thesis
      using apply_patch_full [of Q i p q0 v e c rel "dispatchToEditableSettings Q rel ps ov"]
      by simp
  next
    case False
    with snoc.prems assms have "q0 \<in> set ps" by auto
    moreover from snoc.prems have "\<forall>q\<in>set ps. p_id q = Some i \<longrightarrow> q = q0" by simp
    ultimately have "\<exists>s'. dispatchToEditableSettings Q rel ps ov i = Some s'
                  \<and> s_value s' = v \<and> s_editor s' = e \<and> changed s' = c"
      using snoc.IH by blast
    with step False show ?thesis by (simp add: apply_patch_other)
  qed
qed

lemma run_dispatch:
  "run_events ctx rel [DispatchToEditableSettings ps] ov
     = dispatchToEditableSettings (querySetting ctx) rel ps ov"
  by (simp add: run_events_def)

section \<open>The traces of the facades\<close>

lemma reset_trace:
  "querySetting ctx i = Some p \<Longrightarrow> reset ctx i = [DispatchToEditableSettings [reset_patch p]]"
  by (simp add: reset_def)

lemma update_trace:
  "querySetting ctx i = Some p
     \<Longrightarrow> update ctx i v e = [DispatchToEditableSettings [update_patch p i v e]]"
  by (simp add: update_def)

lemma section_reset_trace:
  "getSettingsSection ctx g n = Some sd
     \<Longrightarrow> section_reset ctx g n
           = [DispatchToEditableSettings
                (map section_reset_patch
                   (filter (\<lambda>s. \<not> disabled s) (sec_editableSettings sd)))]"
  by (simp add: section_reset_def)

lemma save_language:
  "save_changes ctx g \<noteq> [] \<Longrightarrow> dispatch ctx (save_changes ctx g) = Inr u
     \<Longrightarrow> list_ex (\<lambda>c. c_id c = ''Language'') (save_changes ctx g)
     \<Longrightarrow> lng = js_or (js_or (user_language ctx) (first_language_value (save_changes ctx g)))
                 (JStr ''en'')
     \<Longrightarrow> save ctx g =
           [Dispatch (save_changes ctx g), LoadLanguage lng,
            (case loadLanguage ctx lng of
               Inl err \<Rightarrow> ToastMessage error (Thrown err)
             | Inr _ \<Rightarrow> ToastMessage success (Translated ''Settings_updated'' (Some lng)))]"
  by (simp add: save_def Let_def split: sum.splits)

section \<open>The claims\<close>

subsection \<open>C1: the dirty invariant\<close>

text \<open>
  The invariant of the specification fails on three paths. The section-level reset
  flags a member by comparing the value it had with the package default, not the value
  it gets with the persisted one: the limit typed back to 2000 ends unflagged although
  5000 is persisted. \<open>update\<close> compares the persisted editor with the editor argument
  even when the caller left it out: a colour setting updated with its own value ends
  flagged. And the comparison is made on the serialisations, so the order of an object's
  properties counts: resetting the multi-select setting flags it although the default is
  deep-equal to the persisted value.
\<close>

theorem dirty_invariant_counterexample:
  "run_events ex_limit_env never_disabled (section_reset ex_limit_env ''Message'' [])
       [''Message_MaxAllowedSize'' \<mapsto> ex_limit_edited] ''Message_MaxAllowedSize''
     = Some (ex_limit_edited\<lparr>changed := False\<rparr>)
   \<and> \<not> dirty_invariant ex_limit (ex_limit_edited\<lparr>changed := False\<rparr>)
   \<and> run_events ex_colour_env never_disabled
        (update ex_colour_env ''theme-color-primary'' (JStr ''#1d74f5'') JUndefined)
        Map.empty ''theme-color-primary''
     = Some \<lparr>s_id = ''theme-color-primary'', s_value = JStr ''#1d74f5'',
             s_editor = JStr ''color'', packageValue = JStr ''#1d74f5'',
             packageEditor = JStr ''color'', disabled = False, changed = True\<rparr>
   \<and> \<not> dirty_invariant ex_colour
         \<lparr>s_id = ''theme-color-primary'', s_value = JStr ''#1d74f5'',
          s_editor = JStr ''color'', packageValue = JStr ''#1d74f5'',
          packageEditor = JStr ''color'', disabled = False, changed = True\<rparr>
   \<and> run_events ex_roles_env never_disabled (reset ex_roles_env ''Accounts_Default_Roles'')
        Map.empty ''Accounts_Default_Roles''
     = Some \<lparr>s_id = ''Accounts_Default_Roles'',
             s_value = JArr [JObj [(''i18nLabel'', JStr ''User''), (''key'', JStr ''user'')]],
             s_editor = JUndefined,
             packageValue = JArr [JObj [(''i18nLabel'', JStr ''User''), (''key'', JStr ''user'')]],
             packageEditor = JUndefined, disabled = False, changed = True\<rparr>
   \<and> \<not> dirty_invariant ex_roles
         \<lparr>s_id = ''Accounts_Default_Roles'',
          s_value = JArr [JObj [(''i18nLabel'', JStr ''User''), (''key'', JStr ''user'')]],
          s_editor = JUndefined,
          packageValue = JArr [JObj [(''i18nLabel'', JStr ''User''), (''key'', JStr ''user'')]],
          packageEditor = JUndefined, disabled = False, changed = True\<rparr>"
  by (simp add: ex_limit_env_def ex_limit_def ex_limit_edited_def ex_limit_section_def
      ex_colour_env_def ex_colour_def ex_roles_env_def ex_roles_def
      never_disabled_def section_at_def
      section_reset_def section_reset_patch_def update_def update_patch_def
      reset_def reset_patch_def
      run_events_def dispatchToEditableSettings_def apply_patch_def get_editable_def
      dirty_invariant_def Let_def)

text \<open>
  C1, as amended. For a setting with a persisted record, once the patch of the
  setting-level reset has been merged into the overlay, or the patch of \<open>update\<close> when
  each of \<open>value\<close> and \<open>editor\<close> is supplied or else \<^verbatim>\<open>undefined\<close> in the overlay
  entry, the \<open>changed\<close> flag of the entry is true if and only if the serialisation of
  its value or of its editor differs from that of the persisted record's. Nothing is
  said of the section-level reset, nor of an \<open>update\<close> that leaves out a field the entry
  holds.
\<close>

theorem dirty_flag_after_reset_or_update:
  assumes "querySetting ctx i = Some p"
  shows "(s_id p = i \<longrightarrow>
           (\<exists>s'. run_events ctx rel (reset ctx i) ov i = Some s'
                 \<and> s_value s' = packageValue p \<and> s_editor s' = packageEditor p
                 \<and> json_dirty_invariant p s'))
       \<and> (\<forall>s. get_editable (querySetting ctx) rel ov i = Some s
               \<longrightarrow> (v \<noteq> JUndefined \<or> s_value s = JUndefined)
               \<longrightarrow> (e \<noteq> JUndefined \<or> s_editor s = JUndefined)
               \<longrightarrow> (\<exists>s'. run_events ctx rel (update ctx i v e) ov i = Some s'
                         \<and> s_value s' = (if v \<noteq> JUndefined then v else s_value s)
                         \<and> s_editor s' = (if e \<noteq> JUndefined then e else s_editor s)
                         \<and> json_dirty_invariant p s'))"
proof (intro conjI impI allI)
  assume "s_id p = i"
  with assms show "\<exists>s'. run_events ctx rel (reset ctx i) ov i = Some s'
                 \<and> s_value s' = packageValue p \<and> s_editor s' = packageEditor p
                 \<and> json_dirty_invariant p s'"
    by (auto simp: reset_trace run_single reset_patch_def apply_patch_def get_editable_def
        json_dirty_invariant_def Let_def split: option.splits)
next
  fix s
  assume g: "get_editable (querySetting ctx) rel ov i = Some s"
    and hv: "v \<noteq> JUndefined \<or> s_value s = JUndefined"
    and he: "e \<noteq> JUndefined \<or> s_editor s = JUndefined"
  let ?v = "if v \<noteq> JUndefined then v else s_value s"
  let ?e = "if e \<noteq> JUndefined then e else s_editor s"
  let ?c = "JSON_stringify (s_value p) \<noteq> JSON_stringify v
            \<or> JSON_stringify (s_editor p) \<noteq> JSON_stringify e"
  have r: "run_events ctx rel (update ctx i v e) ov i
             = Some (s\<lparr>s_value := ?v, s_editor := ?e, changed := ?c\<rparr>)"
    using assms g
    by (simp add: update_trace run_single update_patch_def apply_patch_def Let_def)
  have sv: "JSON_stringify ?v = JSON_stringify v" using hv by auto
  have se: "JSON_stringify ?e = JSON_stringify e" using he by auto
  have "json_dirty_invariant p (s\<lparr>s_value := ?v, s_editor := ?e, changed := ?c\<rparr>)"
    unfolding json_dirty_invariant_def using sv se by (simp add: eq_commute)
  with r show "\<exists>s'. run_events ctx rel (update ctx i v e) ov i = Some s'
                         \<and> s_value s' = (if v \<noteq> JUndefined then v else s_value s)
                         \<and> s_editor s' = (if e \<noteq> JUndefined then e else s_editor s)
                         \<and> json_dirty_invariant p s'"
    by simp
qed

text \<open>
  At the site name, persisted as its default: an update of the value alone flags the
  entry, and a second update back to the persisted value clears the flag.
\<close>

theorem dirty_flag_after_reset_or_update_witness:
  "run_events ex_env never_disabled (update ex_env ''Site_Name'' (JStr ''Acme Chat'') JUndefined)
       Map.empty ''Site_Name''
     = Some \<lparr>s_id = ''Site_Name'', s_value = JStr ''Acme Chat'', s_editor = JUndefined,
             packageValue = JStr ''Rocket.Chat'', packageEditor = JUndefined,
             disabled = False, changed = True\<rparr>
   \<and> json_dirty_invariant ex_site_name
        (the (run_events ex_env never_disabled
                (update ex_env ''Site_Name'' (JStr ''Acme Chat'') JUndefined)
                Map.empty ''Site_Name''))
   \<and> json_dirty_invariant ex_site_name
        (the (run_events ex_env never_disabled (reset ex_env ''Site_Name'')
                [''Site_Name'' \<mapsto> ex_site_name_edited] ''Site_Name''))
   \<and> changed (the (run_events ex_env never_disabled (reset ex_env ''Site_Name'')
                      [''Site_Name'' \<mapsto> ex_site_name_edited] ''Site_Name'')) = False"
proof -
  have q: "querySetting ex_env ''Site_Name'' = Some ex_site_name"
    by (simp add: ex_env_def)
  have g: "get_editable (querySetting ex_env) never_disabled Map.empty ''Site_Name''
             = Some \<lparr>s_id = ''Site_Name'', s_value = JStr ''Rocket.Chat'', s_editor = JUndefined,
                     packageValue = JStr ''Rocket.Chat'', packageEditor = JUndefined,
                     disabled = False, changed = False\<rparr>"
    by (simp add: get_editable_def ex_env_def ex_site_name_def never_disabled_def)
  have i: "s_id ex_site_name = ''Site_Name''"
    by (simp add: ex_site_name_def)
  note t = dirty_flag_after_reset_or_update [OF q, of never_disabled]
  from t [of Map.empty "JStr ''Acme Chat''" JUndefined] g
  have u: "\<exists>s'. run_events ex_env never_disabled
                  (update ex_env ''Site_Name'' (JStr ''Acme Chat'') JUndefined)
                  Map.empty ''Site_Name'' = Some s'
                \<and> s_value s' = JStr ''Acme Chat'' \<and> s_editor s' = JUndefined
                \<and> json_dirty_invariant ex_site_name s'"
    by simp
  from t [of "[''Site_Name'' \<mapsto> ex_site_name_edited]" JUndefined JUndefined] i
  have r: "\<exists>s'. run_events ex_env never_disabled (reset ex_env ''Site_Name'')
                  [''Site_Name'' \<mapsto> ex_site_name_edited] ''Site_Name'' = Some s'
                \<and> s_value s' = packageValue ex_site_name
                \<and> s_editor s' = packageEditor ex_site_name
                \<and> json_dirty_invariant ex_site_name s'"
    by simp
  have e: "run_events ex_env never_disabled
             (update ex_env ''Site_Name'' (JStr ''Acme Chat'') JUndefined)
             Map.empty ''Site_Name''
           = Some \<lparr>s_id = ''Site_Name'', s_value = JStr ''Acme Chat'', s_editor = JUndefined,
                   packageValue = JStr ''Rocket.Chat'', packageEditor = JUndefined,
                   disabled = False, changed = True\<rparr>"
    by (simp add: ex_env_def ex_site_name_def never_disabled_def update_def update_patch_def
        run_events_def dispatchToEditableSettings_def apply_patch_def get_editable_def Let_def)
  from r have c: "changed (the (run_events ex_env never_disabled (reset ex_env ''Site_Name'')
                      [''Site_Name'' \<mapsto> ex_site_name_edited] ''Site_Name'')) = False"
    by (auto simp: json_dirty_invariant_def ex_site_name_def)
  from u r e c show ?thesis by auto
qed

subsection \<open>C2: what save dispatches\<close>

text \<open>
  C2. \<open>save\<close> hands to \<open>dispatch\<close>, in a single call, the projection
  \<^verbatim>\<open>{ _id, value, editor }\<close> of exactly the members of the group whose \<open>changed\<close> flag
  is true, in their order; when no member is changed it calls nothing at all.
\<close>

theorem save_dispatches_changed_members:
  "filter is_Dispatch (save ctx g) =
     (if filter changed (group_members ctx g) = [] then []
      else [Dispatch
              (map (\<lambda>s. \<lparr>c_id = s_id s, c_value = s_value s, c_editor = s_editor s\<rparr>)
                 (filter changed (group_members ctx g)))])
   \<and> (filter changed (group_members ctx g) = [] \<longrightarrow> save ctx g = [])"
  by (simp add: save_def save_changes_def Let_def split: sum.splits)

text \<open>
  In the group with the site name and the language edited and the URL untouched, the
  batch holds the first two; with the URL alone, nothing is called.
\<close>

theorem save_dispatches_changed_members_witness:
  "filter is_Dispatch (save ex_env ''General'') =
     [Dispatch [\<lparr>c_id = ''Site_Name'', c_value = JStr ''Acme Chat'', c_editor = JUndefined\<rparr>,
                \<lparr>c_id = ''Language'', c_value = JStr ''de'', c_editor = JUndefined\<rparr>]]
   \<and> save (ex_env\<lparr>getSettingsGroup :=
                      [''General'' \<mapsto> ex_general\<lparr>editableSettings := [ex_site_url_untouched]\<rparr>]\<rparr>)
        ''General'' = []"
  using save_dispatches_changed_members [of ex_env "''General''"]
    save_dispatches_changed_members
      [of "ex_env\<lparr>getSettingsGroup :=
                     [''General'' \<mapsto> ex_general\<lparr>editableSettings := [ex_site_url_untouched]\<rparr>]\<rparr>"
          "''General''"]
  by (simp add: group_members_def ex_env_def ex_general_def ex_site_name_edited_def
      ex_site_url_untouched_def ex_language_edited_def)

subsection \<open>C3: the equality behind the flag\<close>




subsection \<open>C4: cancel\<close>

lemma cancel_patch_id:
  "p_id (cancel_patch ctx s) = Some i
     \<Longrightarrow> \<exists>p. querySetting ctx (s_id s) = Some p \<and> s_id p = i
             \<and> cancel_patch ctx s =
                 \<lparr>p_id = Some i, p_value = Some (s_value p), p_editor = Some (s_editor p),
                  p_changed = Some False\<rparr>"
  by (auto simp: cancel_patch_def split: option.splits)

text \<open>
  C4. \<open>cancel\<close> makes one call of \<^verbatim>\<open>dispatchToEditableSettings\<close> and none of
  \<open>dispatch\<close>. The batch has one patch for each member whose \<open>changed\<close> flag is true,
  in order: the persisted record's \<^verbatim>\<open>_id\<close>, \<^verbatim>\<open>value\<close> and \<^verbatim>\<open>editor\<close> with
  \<^verbatim>\<open>changed: false\<close> when the record is found, and the empty object, which names no
  setting and leaves the overlay as it is, when it is not. In a store whose records are
  filed under their own \<^verbatim>\<open>_id\<close>, every changed member with a persisted record ends
  with the persisted value and editor and unflagged, and every changed member without one
  ends as it was.
\<close>

theorem cancel_restores_persisted:
  "\<exists>ps. cancel ctx g = [DispatchToEditableSettings ps]
      \<and> length ps = length (filter changed (group_members ctx g))
      \<and> (\<forall>k < length ps.
           (case querySetting ctx (s_id (filter changed (group_members ctx g) ! k)) of
              Some p \<Rightarrow>
                ps ! k = \<lparr>p_id = Some (s_id p), p_value = Some (s_value p),
                          p_editor = Some (s_editor p), p_changed = Some False\<rparr>
            | None \<Rightarrow>
                ps ! k = \<lparr>p_id = None, p_value = None, p_editor = None, p_changed = None\<rparr>
                \<and> apply_patch (querySetting ctx) rel ov (ps ! k) = ov))
      \<and> filter is_Dispatch (cancel ctx g) = []
      \<and> ((\<forall>s\<in>set (group_members ctx g). \<forall>p.
             querySetting ctx (s_id s) = Some p \<longrightarrow> s_id p = s_id s) \<longrightarrow>
           (\<forall>s\<in>set (group_members ctx g). changed s \<longrightarrow>
              (case querySetting ctx (s_id s) of
                 Some p \<Rightarrow>
                   (\<exists>s'. run_events ctx rel (cancel ctx g) ov (s_id s) = Some s'
                        \<and> s_value s' = s_value p \<and> s_editor s' = s_editor p
                        \<and> \<not> changed s')
               | None \<Rightarrow> run_events ctx rel (cancel ctx g) ov (s_id s) = ov (s_id s))))"
proof -
  let ?ms = "filter changed (group_members ctx g)"
  let ?ps = "map (cancel_patch ctx) ?ms"
  have c: "cancel ctx g = [DispatchToEditableSettings ?ps]"
    by (simp add: cancel_def)
  have l: "length ?ps = length ?ms" by simp
  have k: "\<forall>k < length ?ps.
           (case querySetting ctx (s_id (?ms ! k)) of
              Some p \<Rightarrow>
                ?ps ! k = \<lparr>p_id = Some (s_id p), p_value = Some (s_value p),
                           p_editor = Some (s_editor p), p_changed = Some False\<rparr>
            | None \<Rightarrow>
                ?ps ! k = \<lparr>p_id = None, p_value = None, p_editor = None, p_changed = None\<rparr>
                \<and> apply_patch (querySetting ctx) rel ov (?ps ! k) = ov)"
    by (auto simp: cancel_patch_def apply_patch_no_id split: option.splits)
  have d: "filter is_Dispatch (cancel ctx g) = []"
    by (simp add: cancel_def)
  have w: "(\<forall>s\<in>set (group_members ctx g). \<forall>p.
             querySetting ctx (s_id s) = Some p \<longrightarrow> s_id p = s_id s) \<longrightarrow>
           (\<forall>s\<in>set (group_members ctx g). changed s \<longrightarrow>
              (case querySetting ctx (s_id s) of
                 Some p \<Rightarrow>
                   (\<exists>s'. run_events ctx rel (cancel ctx g) ov (s_id s) = Some s'
                        \<and> s_value s' = s_value p \<and> s_editor s' = s_editor p
                        \<and> \<not> changed s')
               | None \<Rightarrow> run_events ctx rel (cancel ctx g) ov (s_id s) = ov (s_id s)))"
  proof (intro impI ballI)
    fix s
    assume wf: "\<forall>s\<in>set (group_members ctx g). \<forall>p.
             querySetting ctx (s_id s) = Some p \<longrightarrow> s_id p = s_id s"
      and m: "s \<in> set (group_members ctx g)" and ch: "changed s"
    have r: "run_events ctx rel (cancel ctx g) ov
               = dispatchToEditableSettings (querySetting ctx) rel ?ps ov"
      by (simp add: c run_dispatch)
    have same: "querySetting ctx (s_id s2) = querySetting ctx (s_id s)"
      if "s2 \<in> set ?ms" "p_id (cancel_patch ctx s2) = Some (s_id s)" for s2
    proof -
      from that(2) obtain p2 where "querySetting ctx (s_id s2) = Some p2" "s_id p2 = s_id s"
        using cancel_patch_id by blast
      moreover from that(1) have "s2 \<in> set (group_members ctx g)" by simp
      ultimately have "s_id s2 = s_id s" using wf by metis
      then show ?thesis by simp
    qed
    show "case querySetting ctx (s_id s) of
            Some p \<Rightarrow>
              (\<exists>s'. run_events ctx rel (cancel ctx g) ov (s_id s) = Some s'
                   \<and> s_value s' = s_value p \<and> s_editor s' = s_editor p
                   \<and> \<not> changed s')
          | None \<Rightarrow> run_events ctx rel (cancel ctx g) ov (s_id s) = ov (s_id s)"
    proof (cases "querySetting ctx (s_id s)")
      case None
      have "Some (s_id s) \<notin> set (map p_id ?ps)"
      proof
        assume "Some (s_id s) \<in> set (map p_id ?ps)"
        then obtain s2 where s2: "s2 \<in> set ?ms" "p_id (cancel_patch ctx s2) = Some (s_id s)"
          by auto
        then have "querySetting ctx (s_id s2) = None" using same None by simp
        with s2(2) show False by (simp add: cancel_patch_def)
      qed
      then show ?thesis using None r by (simp add: dispatchToEditableSettings_other)
    next
      case (Some p)
      then have ip: "s_id p = s_id s" using wf m by blast
      let ?q0 = "cancel_patch ctx s"
      have q0: "?q0 = \<lparr>p_id = Some (s_id s), p_value = Some (s_value p),
                        p_editor = Some (s_editor p), p_changed = Some False\<rparr>"
        using Some ip by (simp add: cancel_patch_def)
      have mem: "?q0 \<in> set ?ps" using m ch by simp
      have uniq: "\<forall>q\<in>set ?ps. p_id q = Some (s_id s) \<longrightarrow> q = ?q0"
      proof (intro ballI impI)
        fix q assume "q \<in> set ?ps" "p_id q = Some (s_id s)"
        then obtain s2 where s2: "s2 \<in> set ?ms" "q = cancel_patch ctx s2"
          "p_id (cancel_patch ctx s2) = Some (s_id s)" by auto
        then have "querySetting ctx (s_id s2) = Some p" using same Some by simp
        with s2(2) Some show "q = ?q0" by (simp add: cancel_patch_def)
      qed
      have "\<exists>s'. dispatchToEditableSettings (querySetting ctx) rel ?ps ov (s_id s) = Some s'
                  \<and> s_value s' = s_value p \<and> s_editor s' = s_editor p
                  \<and> changed s' = False"
        using dispatchToEditableSettings_at
                [of "querySetting ctx" "s_id s" p ?q0 "s_value p" "s_editor p" False ?ps rel ov]
          Some q0 mem uniq by simp
      then show ?thesis using Some r by simp
    qed
  qed
  show ?thesis
  proof (intro exI conjI)
    show "cancel ctx g = [DispatchToEditableSettings ?ps]" by (fact c)
  qed (fact l k d w)+
qed

text \<open>
  In the example group the site name has a persisted record and the language has none:
  the first is put back and unflagged, the second stays as edited, and \<open>dispatch\<close> is
  not called.
\<close>

theorem cancel_restores_persisted_witness:
  "s_value (the (run_events ex_env never_disabled (cancel ex_env ''General'')
                   [''Site_Name'' \<mapsto> ex_site_name_edited, ''Language'' \<mapsto> ex_language_edited]
                   ''Site_Name'')) = JStr ''Rocket.Chat''
   \<and> changed (the (run_events ex_env never_disabled (cancel ex_env ''General'')
                      [''Site_Name'' \<mapsto> ex_site_name_edited, ''Language'' \<mapsto> ex_language_edited]
                      ''Site_Name'')) = False
   \<and> run_events ex_env never_disabled (cancel ex_env ''General'')
        [''Site_Name'' \<mapsto> ex_site_name_edited, ''Language'' \<mapsto> ex_language_edited]
        ''Language'' = Some ex_language_edited
   \<and> filter is_Dispatch (cancel ex_env ''General'') = []
   \<and> cancel ex_env ''General'' =
       [DispatchToEditableSettings
          [\<lparr>p_id = Some ''Site_Name'', p_value = Some (JStr ''Rocket.Chat''),
            p_editor = Some JUndefined, p_changed = Some False\<rparr>,
           \<lparr>p_id = None, p_value = None, p_editor = None, p_changed = None\<rparr>]]"
proof -
  let ?ov = "[''Site_Name'' \<mapsto> ex_site_name_edited, ''Language'' \<mapsto> ex_language_edited]"
  have ms: "group_members ex_env ''General''
              = [ex_site_name_edited, ex_site_url_untouched, ex_language_edited]"
    by (simp add: group_members_def ex_env_def ex_general_def)
  have wf: "\<forall>s\<in>set (group_members ex_env ''General''). \<forall>p.
             querySetting ex_env (s_id s) = Some p \<longrightarrow> s_id p = s_id s"
    by (simp add: ms ex_env_def ex_site_name_edited_def ex_site_url_untouched_def
        ex_language_edited_def ex_site_name_def ex_site_url_def)
  have q: "querySetting ex_env (s_id ex_site_name_edited) = Some ex_site_name"
    "querySetting ex_env (s_id ex_language_edited) = None"
    by (simp_all add: ex_env_def ex_site_name_edited_def ex_language_edited_def)
  have i: "s_id ex_site_name_edited = ''Site_Name''" "s_id ex_language_edited = ''Language''"
    "changed ex_site_name_edited" "changed ex_language_edited"
    "s_value ex_site_name = JStr ''Rocket.Chat''"
    by (simp_all add: ex_site_name_edited_def ex_language_edited_def ex_site_name_def)
  from cancel_restores_persisted [of ex_env "''General''" never_disabled ?ov]
  obtain ps where d: "filter is_Dispatch (cancel ex_env ''General'') = []"
    and st: "\<forall>s\<in>set (group_members ex_env ''General''). changed s \<longrightarrow>
              (case querySetting ex_env (s_id s) of
                 Some p \<Rightarrow>
                   (\<exists>s'. run_events ex_env never_disabled (cancel ex_env ''General'') ?ov (s_id s)
                            = Some s'
                        \<and> s_value s' = s_value p \<and> s_editor s' = s_editor p
                        \<and> \<not> changed s')
               | None \<Rightarrow> run_events ex_env never_disabled (cancel ex_env ''General'') ?ov (s_id s)
                          = ?ov (s_id s))"
    using wf by blast
  have m: "ex_site_name_edited \<in> set (group_members ex_env ''General'')"
    "ex_language_edited \<in> set (group_members ex_env ''General'')"
    by (simp_all add: ms)
  have a: "\<exists>s'. run_events ex_env never_disabled (cancel ex_env ''General'') ?ov ''Site_Name''
                   = Some s'
                \<and> s_value s' = JStr ''Rocket.Chat'' \<and> \<not> changed s'"
    using st [rule_format, OF m(1) i(3)] q(1) i(1,5) by auto
  have b: "run_events ex_env never_disabled (cancel ex_env ''General'') ?ov ''Language''
             = Some ex_language_edited"
    using st [rule_format, OF m(2) i(4)] q(2) i(2) by simp
  have e: "cancel ex_env ''General'' =
       [DispatchToEditableSettings
          [\<lparr>p_id = Some ''Site_Name'', p_value = Some (JStr ''Rocket.Chat''),
            p_editor = Some JUndefined, p_changed = Some False\<rparr>,
           \<lparr>p_id = None, p_value = None, p_editor = None, p_changed = None\<rparr>]]"
    by (simp add: cancel_def cancel_patch_def group_members_def ex_general_def ex_env_def
        ex_site_name_edited_def ex_site_url_untouched_def ex_language_edited_def
        ex_site_name_def)
  from a b d e show ?thesis by auto
qed

subsection \<open>C5: the language reload\<close>

lemma first_language_value_find:
  "find (\<lambda>c. c_id c = ''Language'') cs = Some c \<Longrightarrow> first_language_value cs = c_value c"
  unfolding first_language_value_def
  by (induction cs) (auto split: if_splits)

lemma find_language_ex:
  "list_ex (\<lambda>c. c_id c = ''Language'') cs \<Longrightarrow> \<exists>c. find (\<lambda>c. c_id c = ''Language'') cs = Some c"
  by (induction cs) auto

lemma find_language_list_ex:
  "find (\<lambda>c. c_id c = ''Language'') cs = Some c \<Longrightarrow> list_ex (\<lambda>c. c_id c = ''Language'') cs"
  by (induction cs) (auto split: if_splits)

text \<open>
  C5. When \<open>dispatch\<close> resolves on a batch that holds the \<^verbatim>\<open>Language\<close> setting,
  \<open>save\<close> calls \<open>loadLanguage\<close> exactly once, after \<open>dispatch\<close> and before any
  notification, with the language chosen in this order (\<^verbatim>\<open>||\<close>): the current user's
  language, else the value dispatched for \<^verbatim>\<open>Language\<close> (the first such entry), else
  \<^verbatim>\<open>'en'\<close>. The
  success notification follows only when that call has resolved; when it rejects, the
  failure is reported instead.
\<close>

theorem save_reloads_language:
  assumes "cs = save_changes ctx g"
    and "list_ex (\<lambda>c. c_id c = ''Language'') cs"
    and "dispatch ctx cs = Inr u"
  shows "\<exists>c lng. find (\<lambda>c. c_id c = ''Language'') cs = Some c
           \<and> lng = (if js_truthy (user_language ctx) then user_language ctx
                    else if js_truthy (c_value c) then c_value c
                    else JStr ''en'')
           \<and> filter is_LoadLanguage (save ctx g) = [LoadLanguage lng]
           \<and> save ctx g =
               [Dispatch cs, LoadLanguage lng,
                (case loadLanguage ctx lng of
                   Inl err \<Rightarrow> ToastMessage error (Thrown err)
                 | Inr _ \<Rightarrow> ToastMessage success (Translated ''Settings_updated'' (Some lng)))]"
proof -
  from assms(2) obtain c where c: "find (\<lambda>c. c_id c = ''Language'') cs = Some c"
    using find_language_ex by blast
  define lng where "lng = (if js_truthy (user_language ctx) then user_language ctx
                    else if js_truthy (c_value c) then c_value c
                    else JStr ''en'')"
  have l: "lng = js_or (js_or (user_language ctx) (first_language_value (save_changes ctx g)))
                   (JStr ''en'')"
    using c assms(1) by (simp add: lng_def js_or_def first_language_value_find)
  have ne: "save_changes ctx g \<noteq> []" using assms(1,2) by auto
  have s: "save ctx g =
               [Dispatch cs, LoadLanguage lng,
                (case loadLanguage ctx lng of
                   Inl err \<Rightarrow> ToastMessage error (Thrown err)
                 | Inr _ \<Rightarrow> ToastMessage success (Translated ''Settings_updated'' (Some lng)))]"
    using save_language [OF ne _ _ l] assms by simp
  then have "filter is_LoadLanguage (save ctx g) = [LoadLanguage lng]"
    by (simp split: sum.splits)
  with c s lng_def show ?thesis by blast
qed

text \<open>
  With no user, the dispatched \<^verbatim>\<open>'de'\<close> is loaded; with a user whose language is
  \<^verbatim>\<open>'pt'\<close>, that one is.
\<close>

theorem save_reloads_language_witness:
  "save ex_env ''General'' =
      [Dispatch [\<lparr>c_id = ''Site_Name'', c_value = JStr ''Acme Chat'', c_editor = JUndefined\<rparr>,
                 \<lparr>c_id = ''Language'', c_value = JStr ''de'', c_editor = JUndefined\<rparr>],
       LoadLanguage (JStr ''de''),
       ToastMessage success (Translated ''Settings_updated'' (Some (JStr ''de'')))]
   \<and> filter is_LoadLanguage (save (ex_env\<lparr>user := Some \<lparr>language = JStr ''pt''\<rparr>\<rparr>) ''General'')
       = [LoadLanguage (JStr ''pt'')]"
proof -
  let ?cs = "[\<lparr>c_id = ''Site_Name'', c_value = JStr ''Acme Chat'', c_editor = JUndefined\<rparr>,
              \<lparr>c_id = ''Language'', c_value = JStr ''de'', c_editor = JUndefined\<rparr>]"
  let ?pt = "ex_env\<lparr>user := Some \<lparr>language = JStr ''pt''\<rparr>\<rparr>"
  have a: "?cs = save_changes ex_env ''General''" "?cs = save_changes ?pt ''General''"
    by (simp_all add: save_changes_def group_members_def ex_env_def ex_general_def
        ex_site_name_edited_def ex_site_url_untouched_def ex_language_edited_def)
  have b: "list_ex (\<lambda>c. c_id c = ''Language'') ?cs" by simp
  have d: "dispatch ex_env ?cs = Inr ()" "dispatch ?pt ?cs = Inr ()"
    by (simp_all add: ex_env_def resolves_def)
  have f: "find (\<lambda>c. c_id c = ''Language'') ?cs
             = Some \<lparr>c_id = ''Language'', c_value = JStr ''de'', c_editor = JUndefined\<rparr>"
    by simp
  from save_reloads_language [OF a(1) b d(1)] f
  have "save ex_env ''General'' =
      [Dispatch ?cs, LoadLanguage (JStr ''de''),
       ToastMessage success (Translated ''Settings_updated'' (Some (JStr ''de'')))]"
    by (simp add: user_language_def ex_env_def resolves_def)
  moreover from save_reloads_language [OF a(2) b d(2)] f
  have "filter is_LoadLanguage (save ?pt ''General'') = [LoadLanguage (JStr ''pt'')]"
    by (auto simp: user_language_def)
  ultimately show ?thesis by simp
qed

subsection \<open>C6: one outcome per save\<close>

text \<open>
  A save of a group with no changed member returns at the guard
  \<^verbatim>\<open>if (changes.length === 0) return\<close>: no outcome is reported, neither success nor
  failure.
\<close>

theorem save_reports_once_counterexample:
  "filter is_Toast
     (save (ex_env\<lparr>getSettingsGroup :=
                     [''General'' \<mapsto> ex_general\<lparr>editableSettings := [ex_site_url_untouched]\<rparr>]\<rparr>)
        ''General'') = []"
  by (simp add: save_def save_changes_def group_members_def ex_env_def ex_general_def
      ex_site_url_untouched_def)

text \<open>
  C6, as amended. Every invocation of \<open>save\<close> on a group with at least one changed
  member reports exactly one outcome, a success or a failure and never both: the failure
  carrying the thrown value when \<open>dispatch\<close> rejects. An invocation on a group with no
  changed member reports nothing.
\<close>

theorem save_reports_once:
  "(filter changed (group_members ctx g) \<noteq> [] \<longrightarrow>
      (\<exists>m. filter is_Toast (save ctx g) = [ToastMessage success m]
          \<or> filter is_Toast (save ctx g) = [ToastMessage error m]))
   \<and> (\<forall>err. filter changed (group_members ctx g) \<noteq> []
          \<longrightarrow> dispatch ctx (save_changes ctx g) = Inl err
          \<longrightarrow> filter is_Toast (save ctx g) = [ToastMessage error (Thrown err)])
   \<and> (filter changed (group_members ctx g) = [] \<longrightarrow> filter is_Toast (save ctx g) = [])"
  by (simp add: save_def save_changes_def Let_def split: sum.splits)

theorem save_reports_once_witness:
  "filter is_Toast (save ex_env ''General'')
     = [ToastMessage success (Translated ''Settings_updated'' (Some (JStr ''de'')))]"
proof -
  have "filter changed (group_members ex_env ''General'') \<noteq> []"
    by (simp add: group_members_def ex_env_def ex_general_def ex_site_name_edited_def)
  with save_reports_once [of ex_env "''General''"]
  have "\<exists>m. filter is_Toast (save ex_env ''General'') = [ToastMessage success m]
          \<or> filter is_Toast (save ex_env ''General'') = [ToastMessage error m]"
    by blast
  moreover have "save ex_env ''General'' =
      [Dispatch [\<lparr>c_id = ''Site_Name'', c_value = JStr ''Acme Chat'', c_editor = JUndefined\<rparr>,
                 \<lparr>c_id = ''Language'', c_value = JStr ''de'', c_editor = JUndefined\<rparr>],
       LoadLanguage (JStr ''de''),
       ToastMessage success (Translated ''Settings_updated'' (Some (JStr ''de'')))]"
    by (simp add: save_def save_changes_def group_members_def ex_env_def ex_general_def
        ex_site_name_edited_def ex_site_url_untouched_def ex_language_edited_def
        resolves_def first_language_value_def user_language_def js_or_def Let_def)
  ultimately show ?thesis by simp
qed

subsection \<open>C7: the setting-level reset\<close>

text \<open>
  The package default of the multi-select setting is deep-equal to its persisted value,
  the properties of the option standing in the other order; the reset reports the
  setting as changed.
\<close>

theorem reset_flag_counterexample:
  "deep_equal (packageValue ex_roles) (s_value ex_roles)
   \<and> deep_equal (packageEditor ex_roles) (s_editor ex_roles)
   \<and> reset ex_roles_env ''Accounts_Default_Roles''
       = [DispatchToEditableSettings
            [\<lparr>p_id = Some ''Accounts_Default_Roles'',
              p_value = Some (JArr [JObj [(''i18nLabel'', JStr ''User''),
                                          (''key'', JStr ''user'')]]),
              p_editor = Some JUndefined,
              p_changed = Some True\<rparr>]]"
  by (simp add: ex_roles_env_def ex_roles_def reset_def reset_patch_def)

text \<open>
  C7, as amended. The setting-level reset is idempotent. It reads the persisted record
  alone, so a second call, made after the first has changed the overlay and whatever is
  derived from it, emits the patch of the first, and the overlay after the two is the
  overlay after one. With no persisted record it does nothing. With one, its patch names
  the record's \<^verbatim>\<open>_id\<close> and carries the package defaults; the entry of the setting ends
  with the package defaults as value and editor, every other entry as it was; and the
  \<open>changed\<close> flag is false if and only if the JSON serialisations of the package
  defaults equal those of the persisted value and editor.
\<close>

theorem reset_idempotent:
  "(querySetting ctx' = querySetting ctx \<longrightarrow>
      reset ctx' i = reset ctx i
      \<and> run_events ctx' rel (reset ctx' i) (run_events ctx rel (reset ctx i) ov)
          = run_events ctx rel (reset ctx i) ov)
   \<and> (querySetting ctx i = None \<longrightarrow> reset ctx i = [])
   \<and> (\<forall>p. querySetting ctx i = Some p \<longrightarrow>
        (\<exists>q. reset ctx i = [DispatchToEditableSettings [q]]
           \<and> p_id q = Some (s_id p)
           \<and> p_value q = Some (packageValue p) \<and> p_editor q = Some (packageEditor p)
           \<and> (p_changed q = Some False \<longleftrightarrow>
                JSON_stringify (packageValue p) = JSON_stringify (s_value p)
                \<and> JSON_stringify (packageEditor p) = JSON_stringify (s_editor p))
           \<and> (p_changed q = Some True \<longleftrightarrow>
                JSON_stringify (packageValue p) \<noteq> JSON_stringify (s_value p)
                \<or> JSON_stringify (packageEditor p) \<noteq> JSON_stringify (s_editor p)))
        \<and> (s_id p = i \<longrightarrow>
             (\<exists>s'. run_events ctx rel (reset ctx i) ov i = Some s'
                  \<and> s_value s' = packageValue p \<and> s_editor s' = packageEditor p
                  \<and> (changed s' \<longleftrightarrow>
                        JSON_stringify (packageValue p) \<noteq> JSON_stringify (s_value p)
                        \<or> JSON_stringify (packageEditor p) \<noteq> JSON_stringify (s_editor p))))
        \<and> (\<forall>j. j \<noteq> s_id p \<longrightarrow> run_events ctx rel (reset ctx i) ov j = ov j))"
proof (intro conjI allI impI)
  assume same: "querySetting ctx' = querySetting ctx"
  then show r: "reset ctx' i = reset ctx i" by (simp add: reset_def)
  have "run_events ctx' rel (reset ctx i) (run_events ctx rel (reset ctx i) ov)
          = run_events ctx rel (reset ctx i) (run_events ctx rel (reset ctx i) ov)"
    using same by (rule run_events_persisted)
  also have "\<dots> = run_events ctx rel (reset ctx i) ov"
    by (cases "querySetting ctx i")
       (simp_all add: reset_def run_nil run_single apply_patch_idem)
  finally show "run_events ctx' rel (reset ctx' i) (run_events ctx rel (reset ctx i) ov)
          = run_events ctx rel (reset ctx i) ov"
    using r by simp
next
  assume "querySetting ctx i = None"
  then show "reset ctx i = []" by (simp add: reset_def)
next
  fix p assume q: "querySetting ctx i = Some p"
  let ?q = "reset_patch p"
  have a: "p_changed ?q = Some False \<longleftrightarrow>
                JSON_stringify (packageValue p) = JSON_stringify (s_value p)
                \<and> JSON_stringify (packageEditor p) = JSON_stringify (s_editor p)"
    by (auto simp: reset_patch_def)
  have b: "p_changed ?q = Some True \<longleftrightarrow>
                JSON_stringify (packageValue p) \<noteq> JSON_stringify (s_value p)
                \<or> JSON_stringify (packageEditor p) \<noteq> JSON_stringify (s_editor p)"
    by (auto simp: reset_patch_def)
  have c: "p_id ?q = Some (s_id p)" "p_value ?q = Some (packageValue p)"
    "p_editor ?q = Some (packageEditor p)"
    by (simp_all add: reset_patch_def)
  have r: "reset ctx i = [DispatchToEditableSettings [?q]]" using q by (rule reset_trace)
  show "\<exists>q. reset ctx i = [DispatchToEditableSettings [q]]
           \<and> p_id q = Some (s_id p)
           \<and> p_value q = Some (packageValue p) \<and> p_editor q = Some (packageEditor p)
           \<and> (p_changed q = Some False \<longleftrightarrow>
                JSON_stringify (packageValue p) = JSON_stringify (s_value p)
                \<and> JSON_stringify (packageEditor p) = JSON_stringify (s_editor p))
           \<and> (p_changed q = Some True \<longleftrightarrow>
                JSON_stringify (packageValue p) \<noteq> JSON_stringify (s_value p)
                \<or> JSON_stringify (packageEditor p) \<noteq> JSON_stringify (s_editor p))"
  proof (intro exI conjI)
    show "reset ctx i = [DispatchToEditableSettings [?q]]" by (fact r)
  qed (fact c a b)+
  show "\<exists>s'. run_events ctx rel (reset ctx i) ov i = Some s'
                  \<and> s_value s' = packageValue p \<and> s_editor s' = packageEditor p
                  \<and> (changed s' \<longleftrightarrow>
                        JSON_stringify (packageValue p) \<noteq> JSON_stringify (s_value p)
                        \<or> JSON_stringify (packageEditor p) \<noteq> JSON_stringify (s_editor p))"
    if "s_id p = i"
    using that q
    by (auto simp: r run_single reset_patch_def apply_patch_def get_editable_def Let_def
        split: option.splits)
  show "run_events ctx rel (reset ctx i) ov j = ov j" if "j \<noteq> s_id p" for j
    using that by (simp add: r run_single apply_patch_other reset_patch_def)
qed

text \<open>
  The edited site name, reset once or twice, is back at its default and unflagged, the
  default having the serialisation of the persisted value; the second call is made where
  the group descriptor has since been dropped; the entry of the language is not touched.
\<close>

theorem reset_idempotent_witness:
  "run_events (ex_env\<lparr>getSettingsGroup := Map.empty\<rparr>) never_disabled
     (reset (ex_env\<lparr>getSettingsGroup := Map.empty\<rparr>) ''Site_Name'')
     (run_events ex_env never_disabled (reset ex_env ''Site_Name'')
        [''Site_Name'' \<mapsto> ex_site_name_edited, ''Language'' \<mapsto> ex_language_edited])
   = [''Site_Name'' \<mapsto> ex_site_name_edited\<lparr>s_value := JStr ''Rocket.Chat'', changed := False\<rparr>,
      ''Language'' \<mapsto> ex_language_edited]
   \<and> reset ex_env ''Site_Name''
       = [DispatchToEditableSettings
            [\<lparr>p_id = Some ''Site_Name'', p_value = Some (JStr ''Rocket.Chat''),
              p_editor = Some JUndefined, p_changed = Some False\<rparr>]]
   \<and> s_value (the (run_events ex_env never_disabled (reset ex_env ''Site_Name'')
                      [''Site_Name'' \<mapsto> ex_site_name_edited, ''Language'' \<mapsto> ex_language_edited]
                      ''Site_Name'')) = JStr ''Rocket.Chat''
   \<and> run_events ex_env never_disabled (reset ex_env ''Site_Name'')
        [''Site_Name'' \<mapsto> ex_site_name_edited, ''Language'' \<mapsto> ex_language_edited]
        ''Language'' = Some ex_language_edited
   \<and> reset ex_env ''Language'' = []"
proof -
  let ?ctx' = "ex_env\<lparr>getSettingsGroup := Map.empty\<rparr>"
  let ?ov = "[''Site_Name'' \<mapsto> ex_site_name_edited, ''Language'' \<mapsto> ex_language_edited]"
  have q: "querySetting ex_env ''Site_Name'' = Some ex_site_name"
    "querySetting ex_env ''Language'' = None"
    by (simp_all add: ex_env_def)
  have same: "querySetting ?ctx' = querySetting ex_env" by simp
  have i: "s_id ex_site_name = ''Site_Name''" "''Language'' \<noteq> s_id ex_site_name"
    "packageValue ex_site_name = JStr ''Rocket.Chat''"
    "JSON_stringify (packageValue ex_site_name) = JSON_stringify (s_value ex_site_name)"
    "JSON_stringify (packageEditor ex_site_name) = JSON_stringify (s_editor ex_site_name)"
    by (simp_all add: ex_site_name_def)
  have once: "run_events ex_env never_disabled (reset ex_env ''Site_Name'') ?ov
      = [''Site_Name'' \<mapsto> ex_site_name_edited\<lparr>s_value := JStr ''Rocket.Chat'', changed := False\<rparr>,
         ''Language'' \<mapsto> ex_language_edited]"
    by (simp add: ex_env_def ex_site_name_def ex_site_name_edited_def reset_def reset_patch_def
        run_events_def dispatchToEditableSettings_def apply_patch_def get_editable_def Let_def
        fun_upd_twist)
  note t = reset_idempotent [of ?ctx' ex_env "''Site_Name''" never_disabled ?ov]
  note l = reset_idempotent [of ex_env ex_env "''Language''" never_disabled ?ov]
  from t same have twice: "run_events ?ctx' never_disabled (reset ?ctx' ''Site_Name'')
       (run_events ex_env never_disabled (reset ex_env ''Site_Name'') ?ov)
      = run_events ex_env never_disabled (reset ex_env ''Site_Name'') ?ov"
    by blast
  from t q(1) i obtain q1 :: patch where
    r: "reset ex_env ''Site_Name'' = [DispatchToEditableSettings [q1]]"
    and c: "p_changed q1 = Some False"
    by blast
  from t q(1) i(1,3) have v: "\<exists>s'. run_events ex_env never_disabled (reset ex_env ''Site_Name'')
        ?ov ''Site_Name'' = Some s' \<and> s_value s' = JStr ''Rocket.Chat''"
    by (metis (no_types, lifting))
  from t q(1) i(2) have f: "run_events ex_env never_disabled (reset ex_env ''Site_Name'')
        ?ov ''Language'' = ?ov ''Language''"
    by blast
  from l q(2) have n: "reset ex_env ''Language'' = []" by blast
  from r c have e: "reset ex_env ''Site_Name''
       = [DispatchToEditableSettings
            [\<lparr>p_id = Some ''Site_Name'', p_value = Some (JStr ''Rocket.Chat''),
              p_editor = Some JUndefined, p_changed = Some False\<rparr>]]"
    by (simp add: reset_def reset_patch_def ex_env_def ex_site_name_def)
  from v have v': "s_value (the (run_events ex_env never_disabled (reset ex_env ''Site_Name'')
                      ?ov ''Site_Name'')) = JStr ''Rocket.Chat''"
    by auto
  from f have f': "run_events ex_env never_disabled (reset ex_env ''Site_Name'')
        ?ov ''Language'' = Some ex_language_edited"
    by simp
  from twice once have w: "run_events ?ctx' never_disabled (reset ?ctx' ''Site_Name'')
       (run_events ex_env never_disabled (reset ex_env ''Site_Name'') ?ov)
      = [''Site_Name'' \<mapsto> ex_site_name_edited\<lparr>s_value := JStr ''Rocket.Chat'', changed := False\<rparr>,
         ''Language'' \<mapsto> ex_language_edited]"
    by simp
  show ?thesis
    by (intro conjI) (fact w e v' f' n)+
qed

subsection \<open>C8: the section-level reset\<close>

text \<open>
  C8. When the section exists, the section-level reset makes one call of
  \<^verbatim>\<open>dispatchToEditableSettings\<close> whose batch has one patch for each enabled member, in
  order, carrying the member's \<^verbatim>\<open>_id\<close> with \<^verbatim>\<open>value\<close> set to its \<^verbatim>\<open>packageValue\<close> and
  \<^verbatim>\<open>editor\<close> to its \<^verbatim>\<open>packageEditor\<close>. In a section whose members have distinct ids, no
  patch names a disabled member and its overlay entry is left as it was, while every
  enabled member with a persisted record ends at its package defaults.
\<close>

theorem section_reset_patches_enabled_members:
  assumes "getSettingsSection ctx g n = Some sd"
  shows "\<exists>ps. section_reset ctx g n = [DispatchToEditableSettings ps]
     \<and> map p_id ps
         = map (\<lambda>s. Some (s_id s)) (filter (\<lambda>s. \<not> disabled s) (sec_editableSettings sd))
     \<and> map p_value ps
         = map (\<lambda>s. Some (packageValue s)) (filter (\<lambda>s. \<not> disabled s) (sec_editableSettings sd))
     \<and> map p_editor ps
         = map (\<lambda>s. Some (packageEditor s)) (filter (\<lambda>s. \<not> disabled s) (sec_editableSettings sd))
     \<and> (distinct (map s_id (sec_editableSettings sd)) \<longrightarrow>
          (\<forall>s\<in>set (sec_editableSettings sd).
             if disabled s
             then Some (s_id s) \<notin> set (map p_id ps)
                  \<and> run_events ctx rel (section_reset ctx g n) ov (s_id s) = ov (s_id s)
             else (querySetting ctx (s_id s) \<noteq> None \<longrightarrow>
                    (\<exists>s'. run_events ctx rel (section_reset ctx g n) ov (s_id s) = Some s'
                         \<and> s_value s' = packageValue s \<and> s_editor s' = packageEditor s))))"
proof -
  let ?ms = "sec_editableSettings sd"
  let ?en = "filter (\<lambda>s. \<not> disabled s) ?ms"
  let ?ps = "map section_reset_patch ?en"
  have t: "section_reset ctx g n = [DispatchToEditableSettings ?ps]"
    using assms by (rule section_reset_trace)
  have a: "map p_id ?ps = map (\<lambda>s. Some (s_id s)) ?en"
    "map p_value ?ps = map (\<lambda>s. Some (packageValue s)) ?en"
    "map p_editor ?ps = map (\<lambda>s. Some (packageEditor s)) ?en"
    by (simp_all add: section_reset_patch_def)
  have r: "run_events ctx rel (section_reset ctx g n) ov
             = dispatchToEditableSettings (querySetting ctx) rel ?ps ov"
    by (simp add: t run_dispatch)
  have w: "distinct (map s_id ?ms) \<longrightarrow>
          (\<forall>s\<in>set ?ms.
             if disabled s
             then Some (s_id s) \<notin> set (map p_id ?ps)
                  \<and> run_events ctx rel (section_reset ctx g n) ov (s_id s) = ov (s_id s)
             else (querySetting ctx (s_id s) \<noteq> None \<longrightarrow>
                    (\<exists>s'. run_events ctx rel (section_reset ctx g n) ov (s_id s) = Some s'
                         \<and> s_value s' = packageValue s \<and> s_editor s' = packageEditor s)))"
  proof (intro impI ballI)
    fix s
    assume dist: "distinct (map s_id ?ms)" and m: "s \<in> set ?ms"
    have inj: "s2 = s" if "s2 \<in> set ?ms" "s_id s2 = s_id s" for s2
      using dist m that by (meson distinct_map inj_onD)
    show "if disabled s
             then Some (s_id s) \<notin> set (map p_id ?ps)
                  \<and> run_events ctx rel (section_reset ctx g n) ov (s_id s) = ov (s_id s)
             else (querySetting ctx (s_id s) \<noteq> None \<longrightarrow>
                    (\<exists>s'. run_events ctx rel (section_reset ctx g n) ov (s_id s) = Some s'
                         \<and> s_value s' = packageValue s \<and> s_editor s' = packageEditor s))"
    proof (cases "disabled s")
      case True
      have no: "Some (s_id s) \<notin> set (map p_id ?ps)"
      proof
        assume "Some (s_id s) \<in> set (map p_id ?ps)"
        then obtain s2 where "s2 \<in> set ?ms" "\<not> disabled s2" "s_id s2 = s_id s"
          by (auto simp: section_reset_patch_def)
        with inj True show False by blast
      qed
      with True r show ?thesis by (simp add: dispatchToEditableSettings_other)
    next
      case False
      let ?q0 = "section_reset_patch s"
      have mem: "?q0 \<in> set ?ps" using m False by simp
      have uniq: "\<forall>q\<in>set ?ps. p_id q = Some (s_id s) \<longrightarrow> q = ?q0"
      proof (intro ballI impI)
        fix q assume "q \<in> set ?ps" "p_id q = Some (s_id s)"
        then obtain s2 where "s2 \<in> set ?ms" "q = section_reset_patch s2" "s_id s2 = s_id s"
          by (auto simp: section_reset_patch_def)
        with inj show "q = ?q0" by blast
      qed
      have "querySetting ctx (s_id s) \<noteq> None \<longrightarrow>
              (\<exists>s'. dispatchToEditableSettings (querySetting ctx) rel ?ps ov (s_id s) = Some s'
                   \<and> s_value s' = packageValue s \<and> s_editor s' = packageEditor s)"
      proof
        assume "querySetting ctx (s_id s) \<noteq> None"
        then obtain p where p: "querySetting ctx (s_id s) = Some p" by auto
        have f: "p_id ?q0 = Some (s_id s)" "p_value ?q0 = Some (packageValue s)"
          "p_editor ?q0 = Some (packageEditor s)"
          "p_changed ?q0
             = Some (JSON_stringify (s_value s) \<noteq> JSON_stringify (packageValue s)
                     \<or> JSON_stringify (s_editor s) \<noteq> JSON_stringify (packageEditor s))"
          by (simp_all add: section_reset_patch_def)
        have "\<exists>s'. dispatchToEditableSettings (querySetting ctx) rel ?ps ov (s_id s) = Some s'
                  \<and> s_value s' = packageValue s \<and> s_editor s' = packageEditor s
                  \<and> changed s' = (JSON_stringify (s_value s) \<noteq> JSON_stringify (packageValue s)
                        \<or> JSON_stringify (s_editor s) \<noteq> JSON_stringify (packageEditor s))"
          by (rule dispatchToEditableSettings_at
                     [of "querySetting ctx" "s_id s" p ?q0 _ _ _ ?ps rel ov,
                      OF p f(1) f(2) f(3) f(4) mem uniq])
        then show "\<exists>s'. dispatchToEditableSettings (querySetting ctx) rel ?ps ov (s_id s)
                          = Some s'
                   \<and> s_value s' = packageValue s \<and> s_editor s' = packageEditor s"
          by blast
      qed
      with False r show ?thesis by simp
    qed
  qed
  show ?thesis
  proof (intro exI conjI)
    show "section_reset ctx g n = [DispatchToEditableSettings ?ps]" by (fact t)
  qed (fact a w)+
qed

text \<open>
  In the example section the edited site name is enabled and the URL is disabled: the
  batch holds the one patch for the site name, and the entry of the URL is left alone.
\<close>

theorem section_reset_patches_enabled_members_witness:
  "section_reset (ex_env\<lparr>getSettingsSection := section_at ''General'' [] ex_section\<rparr>)
     ''General'' []
     = [DispatchToEditableSettings
          [\<lparr>p_id = Some ''Site_Name'', p_value = Some (JStr ''Rocket.Chat''),
            p_editor = Some JUndefined, p_changed = Some True\<rparr>]]
   \<and> run_events (ex_env\<lparr>getSettingsSection := section_at ''General'' [] ex_section\<rparr>)
        never_disabled
        (section_reset (ex_env\<lparr>getSettingsSection := section_at ''General'' [] ex_section\<rparr>)
           ''General'' [])
        [''Site_Name'' \<mapsto> ex_site_name_edited, ''Site_Url'' \<mapsto> ex_site_url_locked]
        ''Site_Url''
     = Some ex_site_url_locked
   \<and> s_value (the (run_events (ex_env\<lparr>getSettingsSection := section_at ''General'' [] ex_section\<rparr>)
        never_disabled
        (section_reset (ex_env\<lparr>getSettingsSection := section_at ''General'' [] ex_section\<rparr>)
           ''General'' [])
        [''Site_Name'' \<mapsto> ex_site_name_edited, ''Site_Url'' \<mapsto> ex_site_url_locked]
        ''Site_Name'')) = JStr ''Rocket.Chat''"
proof -
  let ?env = "ex_env\<lparr>getSettingsSection := section_at ''General'' [] ex_section\<rparr>"
  let ?ov = "[''Site_Name'' \<mapsto> ex_site_name_edited, ''Site_Url'' \<mapsto> ex_site_url_locked]"
  have g: "getSettingsSection ?env ''General'' [] = Some ex_section"
    by (simp add: section_at_def)
  have ms: "sec_editableSettings ex_section = [ex_site_name_edited, ex_site_url_locked]"
    by (simp add: ex_section_def)
  have dist: "distinct (map s_id (sec_editableSettings ex_section))"
    by (simp add: ms ex_site_name_edited_def ex_site_url_locked_def)
  have f: "disabled ex_site_url_locked" "\<not> disabled ex_site_name_edited"
    "s_id ex_site_url_locked = ''Site_Url''" "s_id ex_site_name_edited = ''Site_Name''"
    "packageValue ex_site_name_edited = JStr ''Rocket.Chat''"
    "querySetting ?env ''Site_Name'' \<noteq> None"
    by (simp_all add: ex_site_url_locked_def ex_site_name_edited_def ex_env_def)
  from section_reset_patches_enabled_members [OF g, of never_disabled ?ov]
  obtain ps :: "patch list" where
    w: "distinct (map s_id (sec_editableSettings ex_section)) \<longrightarrow>
          (\<forall>s\<in>set (sec_editableSettings ex_section).
             if disabled s
             then Some (s_id s) \<notin> set (map p_id ps)
                  \<and> run_events ?env never_disabled (section_reset ?env ''General'' []) ?ov
                      (s_id s) = ?ov (s_id s)
             else (querySetting ?env (s_id s) \<noteq> None \<longrightarrow>
                    (\<exists>s'. run_events ?env never_disabled (section_reset ?env ''General'' []) ?ov
                            (s_id s) = Some s'
                         \<and> s_value s' = packageValue s \<and> s_editor s' = packageEditor s)))"
    by blast
  have st: "\<forall>s\<in>set (sec_editableSettings ex_section).
             if disabled s
             then Some (s_id s) \<notin> set (map p_id ps)
                  \<and> run_events ?env never_disabled (section_reset ?env ''General'' []) ?ov
                      (s_id s) = ?ov (s_id s)
             else (querySetting ?env (s_id s) \<noteq> None \<longrightarrow>
                    (\<exists>s'. run_events ?env never_disabled (section_reset ?env ''General'' []) ?ov
                            (s_id s) = Some s'
                         \<and> s_value s' = packageValue s \<and> s_editor s' = packageEditor s))"
    by (rule mp [OF w dist])
  have m: "ex_site_url_locked \<in> set (sec_editableSettings ex_section)"
    "ex_site_name_edited \<in> set (sec_editableSettings ex_section)"
    by (simp_all add: ms)
  have a: "run_events ?env never_disabled (section_reset ?env ''General'' []) ?ov ''Site_Url''
             = Some ex_site_url_locked"
    using st [rule_format, OF m(1)] f(1,3) by simp
  have b: "\<exists>s'. run_events ?env never_disabled (section_reset ?env ''General'' []) ?ov
                  ''Site_Name'' = Some s' \<and> s_value s' = JStr ''Rocket.Chat''"
    using st [rule_format, OF m(2)] f(2,4,5,6) by auto
  have e: "section_reset ?env ''General'' []
     = [DispatchToEditableSettings
          [\<lparr>p_id = Some ''Site_Name'', p_value = Some (JStr ''Rocket.Chat''),
            p_editor = Some JUndefined, p_changed = Some True\<rparr>]]"
    by (simp add: section_reset_def section_reset_patch_def section_at_def ex_section_def
        ex_site_name_edited_def ex_site_url_locked_def)
  from b have c: "s_value (the (run_events ?env never_disabled
        (section_reset ?env ''General'' []) ?ov ''Site_Name'')) = JStr ''Rocket.Chat''"
    by auto
  show ?thesis
    by (intro conjI) (fact e a c)+
qed

subsection \<open>C9: debouncing\<close>

text \<open>
  \<open>update\<close> and \<open>reset\<close> above are the callbacks handed to
  \<^verbatim>\<open>useDebouncedCallback(..., 100, [querySetting, _id, dispatchToEditableSettings])\<close> of
  \<^verbatim>\<open>@rocket.chat/fuselage-hooks\<close>. When and how often they run within a window of time
  is decided by that hook's timer; the embedding has no clock and says nothing of it.
\<close>

subsection \<open>C10: the language fallback\<close>

text \<open>
  C10. The fallback is decided by truthiness. When \<open>dispatch\<close> resolves on a batch that
  holds the \<^verbatim>\<open>Language\<close> setting and the user's language is falsy (no user, or a
  language that is \<^verbatim>\<open>undefined\<close>, \<^verbatim>\<open>null\<close> or the empty string), \<open>loadLanguage\<close>
  receives the dispatched \<^verbatim>\<open>Language\<close> value, and \<^verbatim>\<open>'en'\<close> when that value is falsy
  too.
\<close>

theorem save_language_fallback_by_truthiness:
  assumes "cs = save_changes ctx g"
    and "find (\<lambda>c. c_id c = ''Language'') cs = Some c"
    and "dispatch ctx cs = Inr u"
    and "\<not> js_truthy (user_language ctx)"
  shows "filter is_LoadLanguage (save ctx g)
           = [LoadLanguage (if js_truthy (c_value c) then c_value c else JStr ''en'')]"
proof -
  have ne: "save_changes ctx g \<noteq> []" using assms(1,2) by auto
  have ex: "list_ex (\<lambda>c. c_id c = ''Language'') (save_changes ctx g)"
    using assms(1,2) find_language_list_ex by blast
  have "js_or (js_or (user_language ctx) (first_language_value (save_changes ctx g)))
          (JStr ''en'')
        = (if js_truthy (c_value c) then c_value c else JStr ''en'')"
    using assms(1,2,4) by (simp add: js_or_def first_language_value_find)
  with save_language [OF ne _ ex refl] assms(1,3) show ?thesis
    by (simp split: sum.splits)
qed

text \<open>
  A user is supplied and the language is the empty string: the dispatched \<^verbatim>\<open>'de'\<close> is
  loaded, and \<^verbatim>\<open>'en'\<close> when the dispatched value is the empty string as well.
\<close>

theorem save_language_fallback_by_truthiness_witness:
  "filter is_LoadLanguage (save (ex_env\<lparr>user := Some \<lparr>language = JStr []\<rparr>\<rparr>) ''General'')
     = [LoadLanguage (JStr ''de'')]
   \<and> filter is_LoadLanguage
       (save (ex_env\<lparr>user := Some \<lparr>language = JStr []\<rparr>,
                     getSettingsGroup :=
                       [''General'' \<mapsto>
                          ex_general\<lparr>editableSettings :=
                                       [ex_language_edited\<lparr>s_value := JStr []\<rparr>]\<rparr>]\<rparr>)
          ''General'')
     = [LoadLanguage (JStr ''en'')]"
proof -
  let ?e1 = "ex_env\<lparr>user := Some \<lparr>language = JStr []\<rparr>\<rparr>"
  let ?e2 = "ex_env\<lparr>user := Some \<lparr>language = JStr []\<rparr>,
                     getSettingsGroup :=
                       [''General'' \<mapsto>
                          ex_general\<lparr>editableSettings :=
                                       [ex_language_edited\<lparr>s_value := JStr []\<rparr>]\<rparr>]\<rparr>"
  let ?cs1 = "[\<lparr>c_id = ''Site_Name'', c_value = JStr ''Acme Chat'', c_editor = JUndefined\<rparr>,
               \<lparr>c_id = ''Language'', c_value = JStr ''de'', c_editor = JUndefined\<rparr>]"
  let ?cs2 = "[\<lparr>c_id = ''Language'', c_value = JStr [], c_editor = JUndefined\<rparr>]"
  have a: "?cs1 = save_changes ?e1 ''General''" "?cs2 = save_changes ?e2 ''General''"
    by (simp_all add: save_changes_def group_members_def ex_env_def ex_general_def
        ex_site_name_edited_def ex_site_url_untouched_def ex_language_edited_def)
  have f: "find (\<lambda>c. c_id c = ''Language'') ?cs1
             = Some \<lparr>c_id = ''Language'', c_value = JStr ''de'', c_editor = JUndefined\<rparr>"
    "find (\<lambda>c. c_id c = ''Language'') ?cs2
             = Some \<lparr>c_id = ''Language'', c_value = JStr [], c_editor = JUndefined\<rparr>"
    by simp_all
  have d: "dispatch ?e1 ?cs1 = Inr ()" "dispatch ?e2 ?cs2 = Inr ()"
    by (simp_all add: ex_env_def resolves_def)
  have t: "\<not> js_truthy (user_language ?e1)" "\<not> js_truthy (user_language ?e2)"
    by (simp_all add: user_language_def)
  from save_language_fallback_by_truthiness [OF a(1) f(1) d(1) t(1)]
    save_language_fallback_by_truthiness [OF a(2) f(2) d(2) t(2)]
  show ?thesis by simp
qed

end
